theory Spec2Isabelle
  imports Main "HOL-Library.Word"
begin

section \<open>Values, exceptions and protocol-buffer messages\<close>

text \<open>
  The contents of a \<^verbatim>\<open>Uint8Array\<close>: a finite sequence of 8-bit values.
\<close>

type_synonym bytes = "8 word list"

text \<open>
  The exceptions raised in the two source files. Functions that can throw, and
  \<^verbatim>\<open>async\<close> functions whose promise can reject, return \<open>exception + 'a\<close>, with
  \<open>Inl\<close> for the thrown value.
\<close>

datatype exception =
    SecurityException string
  | InvalidArgumentsException string
  | TypeError string

text \<open>
  Modelled from the spec: the enum \<^verbatim>\<open>PbKeyStatusType\<close> is imported from
  \<^verbatim>\<open>../internal/proto\<close>; the spec's \<^verbatim>\<open>KeyStatus\<close> has these three values.
\<close>

datatype PbKeyStatusType = ENABLED | DISABLED | DESTROYED

text \<open>
  Modelled from the spec: \<^verbatim>\<open>OutputPrefixType\<close>, enum {RAW, TINK, LEGACY, CRUNCHY}.
\<close>

datatype PbOutputPrefixType = RAW | TINK | LEGACY | CRUNCHY

text \<open>
  Modelled from the spec: the message classes of \<^verbatim>\<open>../internal/proto\<close>.
  \<^verbatim>\<open>PbKeyData\<close> is the spec's \<^verbatim>\<open>SerializedKeyMaterial\<close> (type URL and value bytes).
  \<^verbatim>\<open>PbEcdsaPublicKey\<close> is the key schema: parameters and the two coordinate components.
  A getter of an absent field returns a falsy default in JavaScript (\<^verbatim>\<open>undefined\<close>, or
  the empty string for a bytes field), so an absent field is \<open>None\<close> and the source's test
  \<^verbatim>\<open>!key.getX()\<close> is \<open>getX key = None\<close>; a field that is present is truthy, also when it
  holds an empty array (\<open>Some []\<close>). Protocol-buffer enums are numbers.
\<close>

record PbKeyData =
  getTypeUrl :: string
  getValue :: bytes

record PbEcdsaParams =
  getHashType :: nat
  getCurve :: nat
  getEncoding :: nat

record PbEcdsaPublicKey =
  getKeyVersion :: nat
  getParams :: "PbEcdsaParams option"
  getX :: "bytes option"
  getY :: "bytes option"

text \<open>
  The source types most arguments as \<^verbatim>\<open>AnyDuringMigration\<close>, that is any JavaScript
  value. The values that the two files tell apart (by \<^verbatim>\<open>instanceof\<close>, by \<^verbatim>\<open>===\<close>, or in
  \<^verbatim>\<open>requireUint8Array\<close>) are the constructors; \<open>Constructor\<close> is a class object such as
  \<^verbatim>\<open>PublicKeyVerify\<close>, \<open>PbMessage\<close> any other protocol-buffer message.
\<close>

datatype AnyDuringMigration =
    Undefined
  | Null
  | JsBoolean bool
  | JsNumber int
  | JsString string
  | Uint8Array bytes
  | KeyData PbKeyData
  | EcdsaPublicKey PbEcdsaPublicKey
  | PbMessage string
  | Constructor string

section \<open>The wrapper: \<^verbatim>\<open>WrappedPublicKeyVerify\<close>\<close>

text \<open>
  The interface \<^verbatim>\<open>PublicKeyVerify\<close> has the single method
  \<^verbatim>\<open>verify(signature, data): Promise<boolean>\<close>. A primitive is modelled by that method:
  \<open>Inr b\<close> when the promise resolves to \<open>b\<close>, \<open>Inl e\<close> when it rejects with \<open>e\<close>.
\<close>

type_synonym PublicKeyVerify = "bytes \<Rightarrow> bytes \<Rightarrow> exception + bool"

text \<open>
  Modelled from the spec: \<^verbatim>\<open>PrimitiveSet.Entry\<close> is the spec's \<^verbatim>\<open>PrimitiveEntry\<close>
  \<^verbatim>\<open>{primitive, keyId, outputPrefixType, status}\<close>. The wrapper reads two of the fields,
  through the getters \<^verbatim>\<open>getPrimitive()\<close> (here \<open>primitive\<close>) and \<^verbatim>\<open>getKeyStatus()\<close> (here
  \<open>keyStatus\<close>).
\<close>

record Entry =
  primitive :: PublicKeyVerify
  keyIdentifier :: bytes
  keyStatus :: PbKeyStatusType
  outputPrefixType :: PbOutputPrefixType

text \<open>
  Modelled from the spec: the class \<^verbatim>\<open>PrimitiveSet\<close> is not in the source files. The
  wrapper uses two of its methods: \<open>getPrimitives\<close> is the spec's \<^verbatim>\<open>entriesForPrefix\<close>
  (all entries, of any status, whose tag equals the given bytes, in insertion order, empty
  if none), \<open>getRawPrimitives\<close> is the spec's \<^verbatim>\<open>rawEntries\<close>.
\<close>

record PrimitiveSet =
  getPrimitives :: "bytes \<Rightarrow> Entry list"
  getRawPrimitives :: "Entry list"

text \<open>
  The calls that the wrapper makes on its collaborators, in the order in which it makes
  them: the two lookups in the primitive set and each call of an entry's primitive, with
  the arguments passed.
\<close>

datatype call =
    GetPrimitives bytes
  | GetRawPrimitives
  | PrimitiveVerify Entry bytes bytes

text \<open>
  Modelled from the spec: \<^verbatim>\<open>Validators.requireUint8Array\<close> (from
  \<^verbatim>\<open>../subtle/validators\<close>) is not in the source files; by its name and its use it
  throws unless its argument is a \<^verbatim>\<open>Uint8Array\<close>, and then returns the array.
\<close>

fun requireUint8Array :: "AnyDuringMigration \<Rightarrow> exception + bytes" where
  "requireUint8Array (Uint8Array b) = Inr b"
| "requireUint8Array _ = Inl (InvalidArgumentsException ''input must be a non null Uint8Array'')"

text \<open>
  \<^verbatim>\<open>Uint8Array.prototype.subarray(begin, end)\<close> for non-negative arguments: the elements
  from index \<open>i\<close> up to, not including, \<open>j\<close>, both clamped to the length.
\<close>

definition subarray :: "bytes \<Rightarrow> nat \<Rightarrow> nat \<Rightarrow> bytes" where
  "subarray a i j = take (j - i) (drop i a)"

text \<open>
  \<^verbatim>\<open>tryVerification_\<close> (a constant name cannot end in an underscore): the loop over
  \<^verbatim>\<open>primitives\<close> from index 0. An entry that is not ENABLED is skipped. Otherwise the entry's primitive is called; when the call throws, or
  returns false, the loop goes on with the next entry; when it returns true, that is
  returned at once. After the last entry the result is false. The second component is the
  list of calls made.
\<close>

fun tryVerification :: "Entry list \<Rightarrow> bytes \<Rightarrow> bytes \<Rightarrow> bool \<times> call list" where
  "tryVerification [] signature data = (False, [])"
| "tryVerification (p # primitives) signature data =
     (if keyStatus p \<noteq> ENABLED then tryVerification primitives signature data
      else
        (case primitive p signature data of
           Inl e \<Rightarrow>
             (let (r, calls) = tryVerification primitives signature data
              in (r, PrimitiveVerify p signature data # calls))
         | Inr isValid \<Rightarrow>
             if isValid then (isValid, [PrimitiveVerify p signature data])
             else
               (let (r, calls) = tryVerification primitives signature data
                in (r, PrimitiveVerify p signature data # calls))))"

text \<open>
  The last two statements of \<^verbatim>\<open>verify\<close>, reached when the signature is not longer than
  the prefix and when the prefixed entries did not accept: the raw entries are looked up and
  tried on the signature given. \<open>calls\<close> are the calls made before.
\<close>

definition verifyRaw ::
  "PrimitiveSet \<Rightarrow> bytes \<Rightarrow> bytes \<Rightarrow> call list \<Rightarrow> (exception + bool) \<times> call list" where
  "verifyRaw primitiveSet signature data calls =
     (let primitives = getRawPrimitives primitiveSet;
          (r, rawCalls) = tryVerification primitives signature data
      in (Inr r, calls @ GetRawPrimitives # rawCalls))"

text \<open>
  \<^verbatim>\<open>verify\<close>. \<open>NON_RAW_PREFIX_SIZE\<close> is the constant \<^verbatim>\<open>CryptoFormat.NON_RAW_PREFIX_SIZE\<close>,
  which is not in the source files and is a parameter here. The \<^verbatim>\<open>try\<close> around the first
  call of \<^verbatim>\<open>tryVerification_\<close> has nothing to catch in this model, since
  \<open>tryVerification\<close> has no throwing branch.
\<close>

definition verify ::
  "nat \<Rightarrow> PrimitiveSet \<Rightarrow> AnyDuringMigration \<Rightarrow> AnyDuringMigration
     \<Rightarrow> (exception + bool) \<times> call list" where
  "verify NON_RAW_PREFIX_SIZE primitiveSet signature data =
     (case requireUint8Array signature of
        Inl e \<Rightarrow> (Inl e, [])
      | Inr sig \<Rightarrow>
     (case requireUint8Array data of
        Inl e \<Rightarrow> (Inl e, [])
      | Inr dat \<Rightarrow>
          if length sig > NON_RAW_PREFIX_SIZE then
            (let keyId = subarray sig 0 NON_RAW_PREFIX_SIZE;
                 primitives = getPrimitives primitiveSet keyId;
                 rawSignature = subarray sig NON_RAW_PREFIX_SIZE (length sig);
                 (isValid, calls) = tryVerification primitives rawSignature dat
             in
               if isValid then (Inr isValid, GetPrimitives keyId # calls)
               else verifyRaw primitiveSet sig dat (GetPrimitives keyId # calls))
          else verifyRaw primitiveSet sig dat []))"

section \<open>The key manager: \<^verbatim>\<open>EcdsaPublicKeyManager\<close>\<close>

text \<open>
  \<^verbatim>\<open>EcdsaPublicKeyFactory\<close>: both methods throw, whatever the argument.
\<close>

definition newKey :: "AnyDuringMigration \<Rightarrow> exception + AnyDuringMigration" where
  "newKey keyFormat =
     Inl (SecurityException
       (''This operation is not supported for public keys. '' @
        ''Use EcdsaPrivateKeyManager to generate new keys.''))"

definition newKeyData :: "AnyDuringMigration \<Rightarrow> exception + PbKeyData" where
  "newKeyData serializedKeyFormat =
     Inl (SecurityException
       (''This operation is not supported for public keys. '' @
        ''Use EcdsaPrivateKeyManager to generate new keys.''))"

definition KEY_TYPE :: string where
  "KEY_TYPE = ''type.googleapis.com/google.crypto.tink.EcdsaPublicKey''"

definition SUPPORTED_PRIMITIVE :: AnyDuringMigration where
  "SUPPORTED_PRIMITIVE = Constructor ''PublicKeyVerify''"

definition VERSION :: nat where
  "VERSION = 0"

definition getKeyType :: string where
  "getKeyType = KEY_TYPE"

definition getPrimitiveType :: AnyDuringMigration where
  "getPrimitiveType = SUPPORTED_PRIMITIVE"

definition getVersion :: nat where
  "getVersion = VERSION"

text \<open>
  \<^verbatim>\<open>doesSupport\<close>: strict equality \<^verbatim>\<open>===\<close> with the string \<^verbatim>\<open>KEY_TYPE\<close>.
\<close>

definition doesSupport :: "AnyDuringMigration \<Rightarrow> bool" where
  "doesSupport keyType \<longleftrightarrow> keyType = JsString getKeyType"

text \<open>
  The functions of other modules that the key manager calls are not in the source files
  and are parameters: the decoder \<^verbatim>\<open>PbEcdsaPublicKey.deserializeBinary\<close>,
  \<^verbatim>\<open>EcdsaUtil.validatePublicKey\<close>, \<^verbatim>\<open>EcdsaUtil.getJsonWebKeyFromProto\<close>,
  \<^verbatim>\<open>Util.hashTypeProtoToString\<close>, \<^verbatim>\<open>EcdsaUtil.encodingTypeProtoToEnum\<close> and
  \<^verbatim>\<open>ecdsaVerify.fromJsonWebKey\<close>. Each may throw.
\<close>

record ('jwk, 'enc) collaborators =
  deserializeBinary :: "bytes \<Rightarrow> exception + PbEcdsaPublicKey"
  validatePublicKey :: "PbEcdsaPublicKey \<Rightarrow> nat \<Rightarrow> exception + unit"
  getJsonWebKeyFromProto :: "PbEcdsaPublicKey \<Rightarrow> exception + 'jwk"
  hashTypeProtoToString :: "nat \<Rightarrow> exception + string"
  encodingTypeProtoToEnum :: "nat \<Rightarrow> exception + 'enc"
  fromJsonWebKey :: "'jwk \<Rightarrow> string \<Rightarrow> 'enc \<Rightarrow> exception + PublicKeyVerify"

text \<open>
  \<^verbatim>\<open>getKeyProtoFromKeyData_\<close>: the type URL guard, then the decoding (any exception of the
  decoder is replaced by a \<^verbatim>\<open>SecurityException\<close>), then the test that the parameters and
  both coordinates are there.
\<close>

definition getKeyProtoFromKeyData ::
  "('jwk, 'enc) collaborators \<Rightarrow> PbKeyData \<Rightarrow> exception + PbEcdsaPublicKey" where
  "getKeyProtoFromKeyData c keyData =
     (if getTypeUrl keyData \<noteq> KEY_TYPE then
        Inl (SecurityException
          (''Key type '' @ getTypeUrl keyData @ '' is not supported. This key '' @
           ''manager supports '' @ KEY_TYPE @ ''.''))
      else
        (case deserializeBinary c (getValue keyData) of
           Inl e \<Rightarrow>
             Inl (SecurityException
               (''Input cannot be parsed as '' @ KEY_TYPE @ '' key-proto.''))
         | Inr key \<Rightarrow>
             if getParams key = None \<or> getX key = None \<or> getY key = None then
               Inl (SecurityException
                 (''Input cannot be parsed as '' @ KEY_TYPE @ '' key-proto.''))
             else Inr key))"

text \<open>
  \<^verbatim>\<open>getKeyProto_\<close>: serialized key data goes through \<open>getKeyProtoFromKeyData\<close>, an
  ECDSA public-key message is returned as it is, anything else is refused.
\<close>

fun getKeyProto ::
  "('jwk, 'enc) collaborators \<Rightarrow> AnyDuringMigration \<Rightarrow> exception + PbEcdsaPublicKey" where
  "getKeyProto c (KeyData keyMaterial) = getKeyProtoFromKeyData c keyMaterial"
| "getKeyProto c (EcdsaPublicKey keyMaterial) = Inr keyMaterial"
| "getKeyProto c _ =
     Inl (SecurityException
       (''Key type is not supported. This key manager supports '' @ KEY_TYPE @ ''.''))"

text \<open>
  \<^verbatim>\<open>getPrimitive\<close>. Reading a property of \<^verbatim>\<open>undefined\<close> throws a \<^verbatim>\<open>TypeError\<close>: that is the
  branch of \<^verbatim>\<open>params.getHashType()\<close> for a key without parameters.
\<close>

definition getPrimitive ::
  "('jwk, 'enc) collaborators \<Rightarrow> AnyDuringMigration \<Rightarrow> AnyDuringMigration
     \<Rightarrow> exception + PublicKeyVerify" where
  "getPrimitive c primitiveType key =
     (if primitiveType \<noteq> getPrimitiveType then
        Inl (SecurityException
          (''Requested primitive type which is not '' @
           ''supported by this key manager.''))
      else
        (case getKeyProto c key of
           Inl e \<Rightarrow> Inl e
         | Inr keyProto \<Rightarrow>
        (case validatePublicKey c keyProto getVersion of
           Inl e \<Rightarrow> Inl e
         | Inr _ \<Rightarrow>
        (case getJsonWebKeyFromProto c keyProto of
           Inl e \<Rightarrow> Inl e
         | Inr jwk \<Rightarrow>
        (case getParams keyProto of
           None \<Rightarrow> Inl (TypeError ''Cannot read properties of undefined'')
         | Some params \<Rightarrow>
        (case hashTypeProtoToString c (getHashType params) of
           Inl e \<Rightarrow> Inl e
         | Inr hash \<Rightarrow>
        (case encodingTypeProtoToEnum c (getEncoding params) of
           Inl e \<Rightarrow> Inl e
         | Inr encoding \<Rightarrow> fromJsonWebKey c jwk hash encoding)))))))"

section \<open>The vocabulary of the specification\<close>

text \<open>
  An entry validates a signature for some data when it is ENABLED and its primitive
  reports success. It rejects when its primitive throws or reports an invalid signature.
\<close>

definition validates :: "Entry \<Rightarrow> bytes \<Rightarrow> bytes \<Rightarrow> bool" where
  "validates e signature data \<longleftrightarrow>
     keyStatus e = ENABLED \<and> primitive e signature data = Inr True"

definition rejects :: "Entry \<Rightarrow> bytes \<Rightarrow> bytes \<Rightarrow> bool" where
  "rejects e signature data \<longleftrightarrow>
     isl (primitive e signature data) \<or> primitive e signature data = Inr False"

text \<open>
  The entries of a group that are tried: the ENABLED ones, in insertion order, up to and
  including the first that validates.
\<close>

definition tried :: "Entry list \<Rightarrow> bytes \<Rightarrow> bytes \<Rightarrow> Entry list" where
  "tried entries signature data =
     (let enabled = filter (\<lambda>e. keyStatus e = ENABLED) entries
      in takeWhile (\<lambda>e. \<not> validates e signature data) enabled @
         take 1 (dropWhile (\<lambda>e. \<not> validates e signature data) enabled))"

text \<open>
  The candidate prefix of a signature and the remainder after it.
\<close>

definition candidatePrefix :: "nat \<Rightarrow> bytes \<Rightarrow> bytes" where
  "candidatePrefix prefixSize signature = take prefixSize signature"

definition remainder :: "nat \<Rightarrow> bytes \<Rightarrow> bytes" where
  "remainder prefixSize signature = drop prefixSize signature"

text \<open>
  The two phases of the dispatch: the entries found under the candidate prefix, given the
  remainder, and the raw entries, given the full signature.
\<close>

definition prefixedEntries :: "nat \<Rightarrow> PrimitiveSet \<Rightarrow> bytes \<Rightarrow> Entry list" where
  "prefixedEntries prefixSize primitiveSet signature =
     getPrimitives primitiveSet (candidatePrefix prefixSize signature)"

definition prefixedAccepts :: "nat \<Rightarrow> PrimitiveSet \<Rightarrow> bytes \<Rightarrow> bytes \<Rightarrow> bool" where
  "prefixedAccepts prefixSize primitiveSet signature data \<longleftrightarrow>
     prefixSize < length signature \<and>
     (\<exists>e \<in> set (prefixedEntries prefixSize primitiveSet signature).
        validates e (remainder prefixSize signature) data)"

definition rawAccepts :: "PrimitiveSet \<Rightarrow> bytes \<Rightarrow> bytes \<Rightarrow> bool" where
  "rawAccepts primitiveSet signature data \<longleftrightarrow>
     (\<exists>e \<in> set (getRawPrimitives primitiveSet). validates e signature data)"

definition prefixedCalls :: "nat \<Rightarrow> PrimitiveSet \<Rightarrow> bytes \<Rightarrow> bytes \<Rightarrow> call list" where
  "prefixedCalls prefixSize primitiveSet signature data =
     GetPrimitives (candidatePrefix prefixSize signature) #
     map (\<lambda>e. PrimitiveVerify e (remainder prefixSize signature) data)
       (tried (prefixedEntries prefixSize primitiveSet signature)
          (remainder prefixSize signature) data)"

definition rawCalls :: "PrimitiveSet \<Rightarrow> bytes \<Rightarrow> bytes \<Rightarrow> call list" where
  "rawCalls primitiveSet signature data =
     GetRawPrimitives #
     map (\<lambda>e. PrimitiveVerify e signature data)
       (tried (getRawPrimitives primitiveSet) signature data)"

text \<open>
  The entries whose primitive was called, and the prefixes looked up, in a list of calls.
\<close>

fun invoked :: "call list \<Rightarrow> Entry list" where
  "invoked [] = []"
| "invoked (PrimitiveVerify e signature data # calls) = e # invoked calls"
| "invoked (_ # calls) = invoked calls"

fun lookups :: "call list \<Rightarrow> bytes list" where
  "lookups [] = []"
| "lookups (GetPrimitives keyId # calls) = keyId # lookups calls"
| "lookups (_ # calls) = lookups calls"

text \<open>
  Two entries that are the same, or differ only in the primitive of an entry that is not
  ENABLED.
\<close>

definition replacedDisabled :: "Entry \<Rightarrow> Entry \<Rightarrow> bool" where
  "replacedDisabled e e' \<longleftrightarrow>
     (if keyStatus e = ENABLED then e' = e else e' = e\<lparr>primitive := primitive e'\<rparr>)"

definition isUint8Array :: "AnyDuringMigration \<Rightarrow> bool" where
  "isUint8Array v = (case v of Uint8Array b \<Rightarrow> True | _ \<Rightarrow> False)"

definition isKeyMessage :: "AnyDuringMigration \<Rightarrow> bool" where
  "isKeyMessage v = (case v of KeyData k \<Rightarrow> True | EcdsaPublicKey k \<Rightarrow> True | _ \<Rightarrow> False)"

text \<open>
  The construction of the verifier from a key message, as the steps made one after the
  other, each on the results of those before, stopping at the first that throws: the key
  is validated for version 0, converted to a JSON web key, its parameters are read, the
  hash name and the signature encoding are derived from them, and the verifier is built
  from the three. No step looks at the type URL, decodes bytes or tests the coordinates.
\<close>

definition andThen :: "exception + 'a \<Rightarrow> ('a \<Rightarrow> exception + 'b) \<Rightarrow> exception + 'b" where
  "andThen r f = (if isl r then Inl (projl r) else f (projr r))"

definition paramsOf :: "PbEcdsaPublicKey \<Rightarrow> exception + PbEcdsaParams" where
  "paramsOf key =
     (if getParams key = None then Inl (TypeError ''Cannot read properties of undefined'')
      else Inr (the (getParams key)))"

definition primitiveFromKey ::
  "('jwk, 'enc) collaborators \<Rightarrow> PbEcdsaPublicKey \<Rightarrow> exception + PublicKeyVerify" where
  "primitiveFromKey c key =
     andThen (validatePublicKey c key 0) (\<lambda>valid.
     andThen (getJsonWebKeyFromProto c key) (\<lambda>jwk.
     andThen (paramsOf key) (\<lambda>params.
     andThen (hashTypeProtoToString c (getHashType params)) (\<lambda>hash.
     andThen (encodingTypeProtoToEnum c (getEncoding params)) (\<lambda>encoding.
       fromJsonWebKey c jwk hash encoding)))))"

section \<open>Example primitive sets and keys\<close>

definition acceptOnly :: "bytes \<Rightarrow> PublicKeyVerify" where
  "acceptOnly s = (\<lambda>signature data. Inr (signature = s))"

definition acceptAll :: PublicKeyVerify where
  "acceptAll = (\<lambda>signature data. Inr True)"

definition throwing :: PublicKeyVerify where
  "throwing = (\<lambda>signature data. Inl (SecurityException ''invalid signature''))"

definition entryDisabled :: Entry where
  "entryDisabled =
     \<lparr>primitive = acceptAll, keyIdentifier = [1, 2, 3, 4, 5], keyStatus = DISABLED,
      outputPrefixType = TINK\<rparr>"

definition entryThrows :: Entry where
  "entryThrows =
     \<lparr>primitive = throwing, keyIdentifier = [1, 2, 3, 4, 5], keyStatus = ENABLED,
      outputPrefixType = TINK\<rparr>"

definition entryTagged :: Entry where
  "entryTagged =
     \<lparr>primitive = acceptOnly [9], keyIdentifier = [1, 2, 3, 4, 5], keyStatus = ENABLED,
      outputPrefixType = TINK\<rparr>"

definition entryLater :: Entry where
  "entryLater =
     \<lparr>primitive = acceptOnly [9], keyIdentifier = [1, 2, 3, 4, 5], keyStatus = ENABLED,
      outputPrefixType = TINK\<rparr>"

definition entryRaw :: Entry where
  "entryRaw =
     \<lparr>primitive = acceptOnly [1, 2, 3, 4, 5, 8], keyIdentifier = [], keyStatus = ENABLED,
      outputPrefixType = RAW\<rparr>"

definition entryRawShort :: Entry where
  "entryRawShort =
     \<lparr>primitive = acceptOnly [8], keyIdentifier = [], keyStatus = ENABLED,
      outputPrefixType = RAW\<rparr>"

definition exampleSet :: PrimitiveSet where
  "exampleSet =
     \<lparr>getPrimitives =
        (\<lambda>k. if k = [1, 2, 3, 4, 5] then [entryDisabled, entryThrows, entryTagged, entryLater]
             else []),
      getRawPrimitives = [entryRawShort, entryRaw]\<rparr>"

definition exampleSetReplaced :: PrimitiveSet where
  "exampleSetReplaced =
     \<lparr>getPrimitives =
        (\<lambda>k. if k = [1, 2, 3, 4, 5]
             then [entryDisabled\<lparr>primitive := throwing\<rparr>, entryThrows, entryTagged, entryLater]
             else []),
      getRawPrimitives = [entryRawShort, entryRaw]\<rparr>"

definition emptySet :: PrimitiveSet where
  "emptySet = \<lparr>getPrimitives = (\<lambda>k. []), getRawPrimitives = []\<rparr>"

definition exampleParams :: PbEcdsaParams where
  "exampleParams = \<lparr>getHashType = 3, getCurve = 2, getEncoding = 1\<rparr>"

definition exampleKey :: PbEcdsaPublicKey where
  "exampleKey =
     \<lparr>getKeyVersion = 0, getParams = Some exampleParams, getX = Some [4], getY = Some [6]\<rparr>"

definition exampleCollaborators :: "(PbEcdsaPublicKey, nat) collaborators" where
  "exampleCollaborators =
     \<lparr>deserializeBinary =
        (\<lambda>b. if b = [] then Inl (TypeError ''truncated'')
             else if b = [1] then Inr (exampleKey\<lparr>getX := None\<rparr>)
             else if b = [3] then Inr (exampleKey\<lparr>getY := None\<rparr>)
             else Inr exampleKey),
      validatePublicKey = (\<lambda>key version. Inr ()),
      getJsonWebKeyFromProto = (\<lambda>key. Inr key),
      hashTypeProtoToString = (\<lambda>h. Inr ''SHA-256''),
      encodingTypeProtoToEnum = (\<lambda>e. Inr e),
      fromJsonWebKey = (\<lambda>jwk hash encoding. Inr (acceptOnly (the (getX jwk))))\<rparr>"

definition refusingCollaborators :: "(PbEcdsaPublicKey, nat) collaborators" where
  "refusingCollaborators =
     exampleCollaborators
       \<lparr>validatePublicKey := (\<lambda>key version. Inl (SecurityException ''unsupported curve''))\<rparr>"

section \<open>Properties of the dispatch loop\<close>

lemma tryVerification_result:
  "fst (tryVerification es sg d) \<longleftrightarrow> (\<exists>e\<in>set es. validates e sg d)"
  by (induction es) (auto simp: validates_def split: sum.splits prod.splits)

lemma tryVerification_calls:
  "snd (tryVerification es sg d) = map (\<lambda>e. PrimitiveVerify e sg d) (tried es sg d)"
  by (induction es) (auto simp: validates_def tried_def Let_def split: sum.splits prod.splits)

lemma tryVerification_eq:
  "tryVerification es sg d =
     ((\<exists>e\<in>set es. validates e sg d), map (\<lambda>e. PrimitiveVerify e sg d) (tried es sg d))"
  using tryVerification_result[of es sg d] tryVerification_calls[of es sg d]
  by (cases "tryVerification es sg d") simp

lemma verifyRaw_eq:
  "verifyRaw ps sg d calls = (Inr (rawAccepts ps sg d), calls @ rawCalls ps sg d)"
  by (simp add: verifyRaw_def tryVerification_eq Let_def rawAccepts_def rawCalls_def)

lemma verify_long:
  assumes "N < length sg"
  shows "verify N ps (Uint8Array sg) (Uint8Array d) =
     (if prefixedAccepts N ps sg d then (Inr True, prefixedCalls N ps sg d)
      else (Inr (rawAccepts ps sg d), prefixedCalls N ps sg d @ rawCalls ps sg d))"
  using assms
  by (simp add: verify_def subarray_def tryVerification_eq Let_def verifyRaw_eq
      prefixedAccepts_def prefixedCalls_def prefixedEntries_def candidatePrefix_def
      remainder_def)

lemma verify_short:
  assumes "length sg \<le> N"
  shows "verify N ps (Uint8Array sg) (Uint8Array d) = (Inr (rawAccepts ps sg d), rawCalls ps sg d)"
  using assms by (simp add: verify_def verifyRaw_eq)

lemma tried_enabled: "e \<in> set (tried es sg d) \<Longrightarrow> e \<in> set es \<and> keyStatus e = ENABLED"
  by (induction es) (auto simp: tried_def Let_def split: if_splits)

lemma invoked_map: "invoked (map (\<lambda>e. PrimitiveVerify e sg d) es) = es"
  by (induction es) simp_all

lemma invoked_append: "invoked (xs @ ys) = invoked xs @ invoked ys"
  by (induction xs rule: invoked.induct) simp_all

lemma lookups_map: "lookups (map (\<lambda>e. PrimitiveVerify e sg d) es) = []"
  by (induction es) simp_all

lemma lookups_append: "lookups (xs @ ys) = lookups xs @ lookups ys"
  by (induction xs rule: lookups.induct) simp_all

lemma tryVerification_replaced:
  "list_all2 replacedDisabled es es' \<Longrightarrow> tryVerification es' sg d = tryVerification es sg d"
proof (induction es es' rule: list_all2_induct)
  case Nil
  then show ?case by simp
next
  case (Cons e es e' es')
  show ?case
  proof (cases "keyStatus e = ENABLED")
    case True
    with Cons.hyps have "e' = e" by (simp add: replacedDisabled_def)
    with Cons.IH show ?thesis by (simp split: sum.splits)
  next
    case False
    with Cons.hyps have "e' = e\<lparr>primitive := primitive e'\<rparr>" by (simp add: replacedDisabled_def)
    then have "keyStatus e' = keyStatus e" by (metis Entry.select_convs(3) Entry.surjective Entry.update_convs(1))
    with False Cons.IH show ?thesis by simp
  qed
qed

lemma verify_not_Uint8Array:
  "\<not> isUint8Array signature \<or> \<not> isUint8Array data \<Longrightarrow>
   \<exists>e. verify N ps signature data = (Inl e, [])"
  by (cases signature; cases data) (simp_all add: verify_def isUint8Array_def)

lemma verify_replaced:
  assumes "\<forall>k. list_all2 replacedDisabled (getPrimitives ps k) (getPrimitives ps' k)"
    and "list_all2 replacedDisabled (getRawPrimitives ps) (getRawPrimitives ps')"
  shows "verify N ps' signature data = verify N ps signature data"
proof -
  have p: "tryVerification (getPrimitives ps' k) s d = tryVerification (getPrimitives ps k) s d"
    for k s d
    using assms(1) by (simp add: tryVerification_replaced)
  have r: "tryVerification (getRawPrimitives ps') s d = tryVerification (getRawPrimitives ps) s d"
    for s d
    using assms(2) by (simp add: tryVerification_replaced)
  have raw: "verifyRaw ps' s d calls = verifyRaw ps s d calls" for s d calls
    by (simp add: verifyRaw_def r)
  show ?thesis
    by (simp add: verify_def p raw Let_def split: sum.splits prod.splits)
qed

lemma invoked_rawCalls: "e \<in> set (invoked (rawCalls ps sg d)) \<Longrightarrow> keyStatus e = ENABLED"
  by (auto simp: rawCalls_def invoked_map dest: tried_enabled)

lemma invoked_prefixedCalls:
  "e \<in> set (invoked (prefixedCalls N ps sg d)) \<Longrightarrow> keyStatus e = ENABLED"
  by (auto simp: prefixedCalls_def invoked_map dest: tried_enabled)

lemma verify_invoked_enabled:
  "e \<in> set (invoked (snd (verify N ps signature data))) \<Longrightarrow> keyStatus e = ENABLED"
proof (cases "isUint8Array signature \<and> isUint8Array data")
  case False
  then obtain x where "verify N ps signature data = (Inl x, [])"
    using verify_not_Uint8Array by blast
  moreover assume "e \<in> set (invoked (snd (verify N ps signature data)))"
  ultimately show ?thesis by simp
next
  case True
  then obtain sg d where sd: "signature = Uint8Array sg" "data = Uint8Array d"
    by (cases signature; cases data) (simp_all add: isUint8Array_def)
  assume "e \<in> set (invoked (snd (verify N ps signature data)))"
  then show ?thesis
    unfolding sd
    by (cases "N < length sg")
       (auto simp: verify_long verify_short invoked_append split: if_splits
             dest: invoked_rawCalls invoked_prefixedCalls)
qed

section \<open>Properties of the key manager\<close>

text \<open>
  An error of \<open>getKeyProto\<close> is an error of \<open>getPrimitive\<close>; for the supported primitive
  type it is the same error.
\<close>

lemma getPrimitive_guard:
  "getKeyProto c key = Inl e \<Longrightarrow> isl (getPrimitive c primitiveType key)"
  by (simp add: getPrimitive_def)

lemma getPrimitive_guard_supported:
  "getKeyProto c key = Inl e \<Longrightarrow> getPrimitive c getPrimitiveType key = Inl e"
  by (simp add: getPrimitive_def)

text \<open>
  For the supported primitive type, \<open>getPrimitive\<close> is \<open>getKeyProto\<close> followed by the
  construction of the verifier from the key that it returns.
\<close>

lemma getPrimitive_supported:
  "getPrimitive c getPrimitiveType key =
     (case getKeyProto c key of Inl e \<Rightarrow> Inl e | Inr keyProto \<Rightarrow> primitiveFromKey c keyProto)"
  by (simp add: getPrimitive_def primitiveFromKey_def andThen_def paramsOf_def getVersion_def
      VERSION_def split: sum.splits option.splits)

section \<open>Unfolding the vocabulary and the examples\<close>

lemmas example_defs =
  exampleSet_def exampleSetReplaced_def emptySet_def entryDisabled_def entryThrows_def
  entryTagged_def entryLater_def entryRaw_def entryRawShort_def acceptOnly_def acceptAll_def
  throwing_def

lemmas vocabulary_defs =
  validates_def rejects_def tried_def candidatePrefix_def remainder_def prefixedEntries_def
  prefixedAccepts_def rawAccepts_def prefixedCalls_def rawCalls_def

lemmas manager_defs =
  KEY_TYPE_def getKeyType_def getPrimitiveType_def SUPPORTED_PRIMITIVE_def getVersion_def
  VERSION_def exampleCollaborators_def exampleKey_def exampleParams_def

section \<open>The wrapped verify operation\<close>

text \<open>
  C1 (soundness and order). For every primitive set and every \<^verbatim>\<open>Uint8Array\<close> signature and
  data, \<open>verify\<close> returns true if and only if an ENABLED entry validates the input: an entry
  found under the candidate prefix, on the remainder (only when the signature is longer
  than the prefix), or a raw entry, on the full signature. The calls are: the prefixed
  entries first, then, if none of them validated, the raw entries; within a group the
  ENABLED entries in insertion order, up to and including the first that validates, and
  none after it.
\<close>

theorem verify_soundness:
  "verify N ps (Uint8Array sg) (Uint8Array d) =
     (Inr (prefixedAccepts N ps sg d \<or> rawAccepts ps sg d),
      if N < length sg
      then prefixedCalls N ps sg d @ (if prefixedAccepts N ps sg d then [] else rawCalls ps sg d)
      else rawCalls ps sg d)"
proof (cases "N < length sg")
  case True
  then show ?thesis by (simp add: verify_long)
next
  case False
  then have "\<not> prefixedAccepts N ps sg d" by (simp add: prefixedAccepts_def)
  with False show ?thesis by (simp add: verify_short)
qed

theorem verify_soundness_witness:
  "verify 5 exampleSet (Uint8Array [1, 2, 3, 4, 5, 9]) (Uint8Array [7]) =
     (Inr True,
      [GetPrimitives [1, 2, 3, 4, 5],
       PrimitiveVerify entryThrows [9] [7],
       PrimitiveVerify entryTagged [9] [7]])"
  using verify_soundness [of 5 exampleSet "[1, 2, 3, 4, 5, 9]" "[7]"]
  by (simp add: example_defs vocabulary_defs)

text \<open>
  C2 (error opacity). If every candidate entry's primitive throws or reports an invalid
  signature (it is enough that the ENABLED candidates do), \<open>verify\<close> returns false: no
  exception of a candidate reaches the caller, and the value is the one returned for a
  primitive set with no entry at all.
\<close>

theorem verify_error_opacity:
  assumes "N < length sg \<longrightarrow>
             (\<forall>e \<in> set (prefixedEntries N ps sg).
                keyStatus e = ENABLED \<longrightarrow> rejects e (remainder N sg) d)"
    and "\<forall>e \<in> set (getRawPrimitives ps). keyStatus e = ENABLED \<longrightarrow> rejects e sg d"
  shows "fst (verify N ps (Uint8Array sg) (Uint8Array d)) = Inr False \<and>
         fst (verify N ps (Uint8Array sg) (Uint8Array d)) =
         fst (verify N emptySet (Uint8Array sg) (Uint8Array d))"
proof -
  have p: "\<not> prefixedAccepts N ps sg d"
    using assms(1) by (auto simp: prefixedAccepts_def validates_def rejects_def)
  have r: "\<not> rawAccepts ps sg d"
    using assms(2) by (auto simp: rawAccepts_def validates_def rejects_def)
  have e: "\<not> prefixedAccepts N emptySet sg d" "\<not> rawAccepts emptySet sg d"
    by (simp_all add: prefixedAccepts_def rawAccepts_def prefixedEntries_def emptySet_def)
  show ?thesis
  proof (cases "N < length sg")
    case True
    with p r e show ?thesis by (simp add: verify_long)
  next
    case False
    with r e show ?thesis by (simp add: verify_short)
  qed
qed

theorem verify_error_opacity_witness:
  "list_all (\<lambda>e. keyStatus e = ENABLED \<longrightarrow> rejects e (remainder 5 [1, 2, 3, 4, 5, 7]) [7])
     (prefixedEntries 5 exampleSet [1, 2, 3, 4, 5, 7]) \<and>
   list_all (\<lambda>e. keyStatus e = ENABLED \<longrightarrow> rejects e [1, 2, 3, 4, 5, 7] [7])
     (getRawPrimitives exampleSet) \<and>
   entryThrows \<in> set (prefixedEntries 5 exampleSet [1, 2, 3, 4, 5, 7]) \<and>
   primitive entryThrows [7] [7] = Inl (SecurityException ''invalid signature'') \<and>
   fst (verify 5 exampleSet (Uint8Array [1, 2, 3, 4, 5, 7]) (Uint8Array [7])) = Inr False \<and>
   fst (verify 5 emptySet (Uint8Array [1, 2, 3, 4, 5, 7]) (Uint8Array [7])) = Inr False"
proof -
  have l1: "list_all (\<lambda>e. keyStatus e = ENABLED \<longrightarrow> rejects e (remainder 5 [1, 2, 3, 4, 5, 7]) [7])
     (prefixedEntries 5 exampleSet [1, 2, 3, 4, 5, 7])"
    by (simp add: example_defs vocabulary_defs)
  have l2: "list_all (\<lambda>e. keyStatus e = ENABLED \<longrightarrow> rejects e [1, 2, 3, 4, 5, 7] [7])
     (getRawPrimitives exampleSet)"
    by (simp add: example_defs vocabulary_defs)
  from l1 have h1: "5 < length [1, 2, 3, 4, 5, 7 :: 8 word] \<longrightarrow>
      (\<forall>e \<in> set (prefixedEntries 5 exampleSet [1, 2, 3, 4, 5, 7]).
         keyStatus e = ENABLED \<longrightarrow> rejects e (remainder 5 [1, 2, 3, 4, 5, 7]) [7])"
    by (simp add: list_all_iff)
  from l2 have h2: "\<forall>e \<in> set (getRawPrimitives exampleSet).
      keyStatus e = ENABLED \<longrightarrow> rejects e [1, 2, 3, 4, 5, 7] [7]"
    by (simp add: list_all_iff)
  have h3: "entryThrows \<in> set (prefixedEntries 5 exampleSet [1, 2, 3, 4, 5, 7])"
    by (simp add: exampleSet_def prefixedEntries_def candidatePrefix_def)
  have h4: "primitive entryThrows [7] [7] = Inl (SecurityException ''invalid signature'')"
    by (simp add: entryThrows_def throwing_def)
  note t = verify_error_opacity [OF h1 h2]
  from t have a: "fst (verify 5 exampleSet (Uint8Array [1, 2, 3, 4, 5, 7]) (Uint8Array [7])) = Inr False"
    by (rule conjunct1)
  from t have b: "fst (verify 5 emptySet (Uint8Array [1, 2, 3, 4, 5, 7]) (Uint8Array [7])) = Inr False"
    by (elim conjE) (erule subst)
  from l1 l2 h3 h4 a b show ?thesis by (intro conjI)
qed

text \<open>
  C3 (status exclusion). The primitive of an entry that is not ENABLED is never called,
  and the outcome does not depend on it: when two primitive sets differ only in the
  primitives of entries that are not ENABLED, \<open>verify\<close> returns the same value and makes the
  same calls on both, for every signature and data; and every entry whose primitive
  \<open>verify\<close> calls is ENABLED.
\<close>

theorem verify_status_exclusion:
  assumes "\<forall>k. list_all2 replacedDisabled (getPrimitives ps k) (getPrimitives ps' k)"
    and "list_all2 replacedDisabled (getRawPrimitives ps) (getRawPrimitives ps')"
  shows "verify N ps' signature data = verify N ps signature data \<and>
         (\<forall>e \<in> set (invoked (snd (verify N ps signature data))). keyStatus e = ENABLED)"
  using verify_replaced [OF assms] verify_invoked_enabled by blast

theorem verify_status_exclusion_witness:
  "(\<forall>k. list_all2 replacedDisabled (getPrimitives exampleSet k) (getPrimitives exampleSetReplaced k)) \<and>
   list_all2 replacedDisabled (getRawPrimitives exampleSet) (getRawPrimitives exampleSetReplaced) \<and>
   keyStatus entryDisabled = DISABLED \<and>
   primitive entryDisabled [7] [7] = Inr True \<and>
   hd (getPrimitives exampleSet [1, 2, 3, 4, 5]) = entryDisabled \<and>
   primitive (hd (getPrimitives exampleSetReplaced [1, 2, 3, 4, 5])) [7] [7] \<noteq> Inr True \<and>
   verify 5 exampleSetReplaced (Uint8Array [1, 2, 3, 4, 5, 7]) (Uint8Array [7]) =
   verify 5 exampleSet (Uint8Array [1, 2, 3, 4, 5, 7]) (Uint8Array [7]) \<and>
   fst (verify 5 exampleSet (Uint8Array [1, 2, 3, 4, 5, 7]) (Uint8Array [7])) = Inr False \<and>
   list_all (\<lambda>e. keyStatus e = ENABLED)
     (invoked (snd (verify 5 exampleSet (Uint8Array [1, 2, 3, 4, 5, 7]) (Uint8Array [7]))))"
proof -
  have h1: "\<forall>k. list_all2 replacedDisabled (getPrimitives exampleSet k) (getPrimitives exampleSetReplaced k)"
    by (simp add: exampleSet_def exampleSetReplaced_def replacedDisabled_def entryDisabled_def)
  have h2: "list_all2 replacedDisabled (getRawPrimitives exampleSet) (getRawPrimitives exampleSetReplaced)"
    by (simp add: exampleSet_def exampleSetReplaced_def replacedDisabled_def)
  have h3: "keyStatus entryDisabled = DISABLED" "primitive entryDisabled [7] [7] = Inr True"
    "hd (getPrimitives exampleSet [1, 2, 3, 4, 5]) = entryDisabled"
    "primitive (hd (getPrimitives exampleSetReplaced [1, 2, 3, 4, 5])) [7] [7] \<noteq> Inr True"
    by (simp_all add: example_defs)
  have h4: "fst (verify 5 exampleSet (Uint8Array [1, 2, 3, 4, 5, 7]) (Uint8Array [7])) = Inr False"
    by (simp add: verify_long example_defs vocabulary_defs)
  note t = verify_status_exclusion [OF h1 h2, of 5 "Uint8Array [1, 2, 3, 4, 5, 7]" "Uint8Array [7]"]
  from t have a: "verify 5 exampleSetReplaced (Uint8Array [1, 2, 3, 4, 5, 7]) (Uint8Array [7]) =
      verify 5 exampleSet (Uint8Array [1, 2, 3, 4, 5, 7]) (Uint8Array [7])"
    by (rule conjunct1)
  from t have b: "list_all (\<lambda>e. keyStatus e = ENABLED)
      (invoked (snd (verify 5 exampleSet (Uint8Array [1, 2, 3, 4, 5, 7]) (Uint8Array [7]))))"
    unfolding list_all_iff by (rule conjunct2)
  from h1 h2 h3 h4 a b show ?thesis by (intro conjI)
qed

text \<open>
  C4 (fallback on the full signature). For a signature longer than the prefix size, when
  no ENABLED entry found under the candidate prefix validates the remainder, \<open>verify\<close> goes
  on to the raw entries and calls them on the full signature, not on the remainder; the
  result is whether a raw entry validates the full signature.
\<close>

theorem verify_fallback:
  assumes "N < length sg"
    and "\<forall>e \<in> set (prefixedEntries N ps sg). \<not> validates e (remainder N sg) d"
  shows "verify N ps (Uint8Array sg) (Uint8Array d) =
           (Inr (rawAccepts ps sg d),
            prefixedCalls N ps sg d @
            GetRawPrimitives #
            map (\<lambda>e. PrimitiveVerify e sg d) (tried (getRawPrimitives ps) sg d))"
proof -
  from assms(2) have "\<not> prefixedAccepts N ps sg d"
    by (simp add: prefixedAccepts_def)
  with assms(1) show ?thesis
    by (simp add: verify_long rawCalls_def)
qed

theorem verify_fallback_witness:
  "5 < length [1, 2, 3, 4, 5, 8 :: 8 word] \<and>
   list_all (\<lambda>e. \<not> validates e (remainder 5 [1, 2, 3, 4, 5, 8]) [7])
     (prefixedEntries 5 exampleSet [1, 2, 3, 4, 5, 8]) \<and>
   remainder 5 [1, 2, 3, 4, 5, 8] = [8] \<and>
   validates entryRawShort [8] [7] \<and>
   verify 5 exampleSet (Uint8Array [1, 2, 3, 4, 5, 8]) (Uint8Array [7]) =
     (Inr True,
      [GetPrimitives [1, 2, 3, 4, 5],
       PrimitiveVerify entryThrows [8] [7],
       PrimitiveVerify entryTagged [8] [7],
       PrimitiveVerify entryLater [8] [7],
       GetRawPrimitives,
       PrimitiveVerify entryRawShort [1, 2, 3, 4, 5, 8] [7],
       PrimitiveVerify entryRaw [1, 2, 3, 4, 5, 8] [7]])"
proof -
  have h1: "5 < length [1, 2, 3, 4, 5, 8 :: 8 word]" by simp
  have l2: "list_all (\<lambda>e. \<not> validates e (remainder 5 [1, 2, 3, 4, 5, 8]) [7])
     (prefixedEntries 5 exampleSet [1, 2, 3, 4, 5, 8])"
    by (simp add: example_defs vocabulary_defs)
  then have h2: "\<forall>e \<in> set (prefixedEntries 5 exampleSet [1, 2, 3, 4, 5, 8]).
      \<not> validates e (remainder 5 [1, 2, 3, 4, 5, 8]) [7]"
    by (simp add: list_all_iff)
  have h3: "remainder 5 [1, 2, 3, 4, 5, 8 :: 8 word] = [8]" by (simp add: remainder_def)
  have h4: "validates entryRawShort [8] [7]" by (simp add: validates_def example_defs)
  have "verify 5 exampleSet (Uint8Array [1, 2, 3, 4, 5, 8]) (Uint8Array [7]) =
     (Inr True,
      [GetPrimitives [1, 2, 3, 4, 5],
       PrimitiveVerify entryThrows [8] [7],
       PrimitiveVerify entryTagged [8] [7],
       PrimitiveVerify entryLater [8] [7],
       GetRawPrimitives,
       PrimitiveVerify entryRawShort [1, 2, 3, 4, 5, 8] [7],
       PrimitiveVerify entryRaw [1, 2, 3, 4, 5, 8] [7]])"
    using verify_fallback [OF h1 h2]
    by (simp add: example_defs vocabulary_defs)
  with h1 l2 h3 h4 show ?thesis by (intro conjI)
qed

text \<open>
  C5 (short signatures). For a signature whose length does not exceed the prefix size,
  \<open>verify\<close> makes no lookup by prefix and calls no primitive of a prefixed entry: its calls
  are the lookup of the raw entries and the raw entries tried, on the full signature.
\<close>

theorem verify_short_signature:
  assumes "length sg \<le> N"
  shows "verify N ps (Uint8Array sg) (Uint8Array d) =
           (Inr (rawAccepts ps sg d),
            GetRawPrimitives #
            map (\<lambda>e. PrimitiveVerify e sg d) (tried (getRawPrimitives ps) sg d)) \<and>
         lookups (snd (verify N ps (Uint8Array sg) (Uint8Array d))) = [] \<and>
         invoked (snd (verify N ps (Uint8Array sg) (Uint8Array d))) =
           tried (getRawPrimitives ps) sg d"
  using assms by (simp add: verify_short rawCalls_def lookups_map invoked_map)

theorem verify_short_signature_witness:
  "length [1, 2, 3, 4, 5 :: 8 word] \<le> 5 \<and>
   getPrimitives exampleSet [1, 2, 3, 4, 5] =
     [entryDisabled, entryThrows, entryTagged, entryLater] \<and>
   verify 5 exampleSet (Uint8Array [1, 2, 3, 4, 5]) (Uint8Array [7]) =
     (Inr False,
      [GetRawPrimitives,
       PrimitiveVerify entryRawShort [1, 2, 3, 4, 5] [7],
       PrimitiveVerify entryRaw [1, 2, 3, 4, 5] [7]]) \<and>
   lookups (snd (verify 5 exampleSet (Uint8Array [1, 2, 3, 4, 5]) (Uint8Array [7]))) = [] \<and>
   invoked (snd (verify 5 exampleSet (Uint8Array [1, 2, 3, 4, 5]) (Uint8Array [7]))) =
     [entryRawShort, entryRaw]"
proof -
  have h1: "length [1, 2, 3, 4, 5 :: 8 word] \<le> 5" by simp
  have h2: "getPrimitives exampleSet [1, 2, 3, 4, 5] =
     [entryDisabled, entryThrows, entryTagged, entryLater]"
    by (simp add: exampleSet_def)
  have r: "rawAccepts exampleSet [1, 2, 3, 4, 5] [7] = False"
    "tried (getRawPrimitives exampleSet) [1, 2, 3, 4, 5] [7] = [entryRawShort, entryRaw]"
    by (simp_all add: example_defs vocabulary_defs)
  from verify_short_signature [OF h1, of exampleSet "[7]"] h1 h2 show ?thesis
    unfolding r by simp
qed

text \<open>
  C9 (input type). If the signature or the data is not a \<^verbatim>\<open>Uint8Array\<close>, \<open>verify\<close> throws,
  and no call has been made before it does. With two \<^verbatim>\<open>Uint8Array\<close> arguments \<open>verify\<close>
  returns a boolean and never throws, whatever the candidate primitives do.
\<close>

theorem verify_requires_Uint8Array:
  "(\<not> isUint8Array signature \<or> \<not> isUint8Array data \<longrightarrow>
      (\<exists>e. verify N ps signature data = (Inl e, []))) \<and>
   (isUint8Array signature \<and> isUint8Array data \<longrightarrow>
      (\<exists>b. fst (verify N ps signature data) = Inr b))"
proof (intro conjI impI)
  assume "\<not> isUint8Array signature \<or> \<not> isUint8Array data"
  then show "\<exists>e. verify N ps signature data = (Inl e, [])"
    by (rule verify_not_Uint8Array)
next
  assume "isUint8Array signature \<and> isUint8Array data"
  then obtain sg d where sd: "signature = Uint8Array sg" "data = Uint8Array d"
    by (cases signature; cases data) (simp_all add: isUint8Array_def)
  show "\<exists>b. fst (verify N ps signature data) = Inr b"
    unfolding sd by (cases "N < length sg") (auto simp: verify_long verify_short)
qed

theorem verify_requires_Uint8Array_witness:
  "\<not> isUint8Array (JsString ''abc'') \<and>
   verify 5 exampleSet (JsString ''abc'') (Uint8Array [7]) =
     (Inl (InvalidArgumentsException ''input must be a non null Uint8Array''), []) \<and>
   \<not> isUint8Array Null \<and>
   verify 5 exampleSet (Uint8Array [1, 2, 3, 4, 5, 9]) Null =
     (Inl (InvalidArgumentsException ''input must be a non null Uint8Array''), []) \<and>
   isUint8Array (Uint8Array [1, 2, 3, 4, 5, 7]) \<and> isUint8Array (Uint8Array [7]) \<and>
   fst (verify 5 exampleSet (Uint8Array [1, 2, 3, 4, 5, 7]) (Uint8Array [7])) = Inr False"
proof -
  have h: "\<not> isUint8Array (JsString ''abc'')" "\<not> isUint8Array Null"
    "isUint8Array (Uint8Array [1, 2, 3, 4, 5, 7])" "isUint8Array (Uint8Array [7])"
    by (simp_all add: isUint8Array_def)
  have a: "verify 5 exampleSet (JsString ''abc'') (Uint8Array [7]) =
     (Inl (InvalidArgumentsException ''input must be a non null Uint8Array''), [])"
    using verify_requires_Uint8Array [of "JsString ''abc''" "Uint8Array [7]" 5 exampleSet] h
    by (auto simp: verify_def)
  have b: "verify 5 exampleSet (Uint8Array [1, 2, 3, 4, 5, 9]) Null =
     (Inl (InvalidArgumentsException ''input must be a non null Uint8Array''), [])"
    using verify_requires_Uint8Array [of "Uint8Array [1, 2, 3, 4, 5, 9]" Null 5 exampleSet] h
    by (auto simp: verify_def)
  have c: "fst (verify 5 exampleSet (Uint8Array [1, 2, 3, 4, 5, 7]) (Uint8Array [7])) = Inr False"
    using verify_requires_Uint8Array [of "Uint8Array [1, 2, 3, 4, 5, 7]" "Uint8Array [7]" 5 exampleSet] h
    by (simp add: verify_long example_defs vocabulary_defs)
  from h a b c show ?thesis by (intro conjI)
qed

section \<open>The key manager and its key factory\<close>

text \<open>
  C6 (key-type guard). For serialized key data whose type URL is not the manager's key
  type, \<open>getPrimitive\<close> fails, whatever the payload bytes, the decoder and the primitive
  type asked for; for the supported primitive type the error is the key-type
  \<^verbatim>\<open>SecurityException\<close>. \<open>doesSupport\<close> is true exactly for the key type string.
\<close>

theorem key_type_guard:
  assumes "getTypeUrl keyData \<noteq> ''type.googleapis.com/google.crypto.tink.EcdsaPublicKey''"
  shows "isl (getPrimitive c primitiveType (KeyData keyData)) \<and>
         getPrimitive c (Constructor ''PublicKeyVerify'') (KeyData keyData) =
           Inl (SecurityException
             (''Key type '' @ getTypeUrl keyData @
              '' is not supported. This key manager supports '' @
              ''type.googleapis.com/google.crypto.tink.EcdsaPublicKey.'')) \<and>
         (doesSupport keyType \<longleftrightarrow>
            keyType = JsString ''type.googleapis.com/google.crypto.tink.EcdsaPublicKey'')"
proof -
  have g: "getKeyProto c (KeyData keyData) =
           Inl (SecurityException
             (''Key type '' @ getTypeUrl keyData @
              '' is not supported. This key manager supports '' @
              ''type.googleapis.com/google.crypto.tink.EcdsaPublicKey.''))"
    using assms by (simp add: getKeyProtoFromKeyData_def KEY_TYPE_def)
  have s: "Constructor ''PublicKeyVerify'' = getPrimitiveType"
    by (simp add: getPrimitiveType_def SUPPORTED_PRIMITIVE_def)
  show ?thesis
    using getPrimitive_guard [OF g] getPrimitive_guard_supported [OF g]
    by (simp add: s doesSupport_def getKeyType_def KEY_TYPE_def)
qed

theorem key_type_guard_witness:
  "getTypeUrl \<lparr>getTypeUrl = ''type.googleapis.com/google.crypto.tink.EcdsaPrivateKey'',
               getValue = [2]\<rparr> \<noteq>
     ''type.googleapis.com/google.crypto.tink.EcdsaPublicKey'' \<and>
   deserializeBinary exampleCollaborators [2] = Inr exampleKey \<and>
   getPrimitive exampleCollaborators (Constructor ''PublicKeyVerify'')
     (KeyData \<lparr>getTypeUrl = ''type.googleapis.com/google.crypto.tink.EcdsaPrivateKey'',
               getValue = [2]\<rparr>) =
     Inl (SecurityException
       (''Key type type.googleapis.com/google.crypto.tink.EcdsaPrivateKey'' @
        '' is not supported. This key manager supports '' @
        ''type.googleapis.com/google.crypto.tink.EcdsaPublicKey.'')) \<and>
   doesSupport (JsString ''type.googleapis.com/google.crypto.tink.EcdsaPublicKey'') \<and>
   \<not> doesSupport (JsString ''type.googleapis.com/google.crypto.tink.EcdsaPrivateKey'')"
proof -
  have h: "getTypeUrl \<lparr>getTypeUrl = ''type.googleapis.com/google.crypto.tink.EcdsaPrivateKey'',
               getValue = [2]\<rparr> \<noteq>
     ''type.googleapis.com/google.crypto.tink.EcdsaPublicKey''"
    by simp
  have d: "deserializeBinary exampleCollaborators [2] = Inr exampleKey"
    by (simp add: exampleCollaborators_def)
  note t = key_type_guard [OF h, of exampleCollaborators]
  have a: "getPrimitive exampleCollaborators (Constructor ''PublicKeyVerify'')
     (KeyData \<lparr>getTypeUrl = ''type.googleapis.com/google.crypto.tink.EcdsaPrivateKey'',
               getValue = [2]\<rparr>) =
     Inl (SecurityException
       (''Key type type.googleapis.com/google.crypto.tink.EcdsaPrivateKey'' @
        '' is not supported. This key manager supports '' @
        ''type.googleapis.com/google.crypto.tink.EcdsaPublicKey.''))"
    using t [of Null Null] by simp
  have b: "doesSupport (JsString ''type.googleapis.com/google.crypto.tink.EcdsaPublicKey'')"
    using t [of Null "JsString ''type.googleapis.com/google.crypto.tink.EcdsaPublicKey''"]
    by simp
  have c: "\<not> doesSupport (JsString ''type.googleapis.com/google.crypto.tink.EcdsaPrivateKey'')"
    using t [of Null "JsString ''type.googleapis.com/google.crypto.tink.EcdsaPrivateKey''"]
    by simp
  from h d a b c show ?thesis by (intro conjI)
qed

text \<open>
  C7 (malformed key). For key data with the manager's type URL, if the decoder throws on
  the value bytes, or the decoded key lacks the parameters or one of the coordinates x
  and y, \<open>getPrimitive\<close> fails and produces no primitive; for the supported primitive type
  the error is the parse \<^verbatim>\<open>SecurityException\<close>.
\<close>

theorem malformed_key:
  assumes "getTypeUrl keyData = ''type.googleapis.com/google.crypto.tink.EcdsaPublicKey''"
    and "case deserializeBinary c (getValue keyData) of
           Inl e \<Rightarrow> True
         | Inr key \<Rightarrow> getParams key = None \<or> getX key = None \<or> getY key = None"
  shows "isl (getPrimitive c primitiveType (KeyData keyData)) \<and>
         getPrimitive c (Constructor ''PublicKeyVerify'') (KeyData keyData) =
           Inl (SecurityException
             (''Input cannot be parsed as '' @
              ''type.googleapis.com/google.crypto.tink.EcdsaPublicKey key-proto.''))"
proof -
  have g: "getKeyProto c (KeyData keyData) =
           Inl (SecurityException
             (''Input cannot be parsed as '' @
              ''type.googleapis.com/google.crypto.tink.EcdsaPublicKey key-proto.''))"
    using assms by (auto simp: getKeyProtoFromKeyData_def KEY_TYPE_def split: sum.splits)
  have s: "Constructor ''PublicKeyVerify'' = getPrimitiveType"
    by (simp add: getPrimitiveType_def SUPPORTED_PRIMITIVE_def)
  show ?thesis
    using getPrimitive_guard [OF g] getPrimitive_guard_supported [OF g]
    by (simp add: s)
qed

theorem malformed_key_witness:
  "getPrimitive exampleCollaborators (Constructor ''PublicKeyVerify'')
     (KeyData \<lparr>getTypeUrl = ''type.googleapis.com/google.crypto.tink.EcdsaPublicKey'',
               getValue = []\<rparr>) =
     Inl (SecurityException
       (''Input cannot be parsed as '' @
        ''type.googleapis.com/google.crypto.tink.EcdsaPublicKey key-proto.'')) \<and>
   deserializeBinary exampleCollaborators [] = Inl (TypeError ''truncated'') \<and>
   getPrimitive exampleCollaborators (Constructor ''PublicKeyVerify'')
     (KeyData \<lparr>getTypeUrl = ''type.googleapis.com/google.crypto.tink.EcdsaPublicKey'',
               getValue = [1]\<rparr>) =
     Inl (SecurityException
       (''Input cannot be parsed as '' @
        ''type.googleapis.com/google.crypto.tink.EcdsaPublicKey key-proto.'')) \<and>
   deserializeBinary exampleCollaborators [1] = Inr (exampleKey\<lparr>getX := None\<rparr>) \<and>
   \<not> isl (getPrimitive exampleCollaborators (Constructor ''PublicKeyVerify'')
     (KeyData \<lparr>getTypeUrl = ''type.googleapis.com/google.crypto.tink.EcdsaPublicKey'',
               getValue = [2]\<rparr>))"
proof -
  let ?t = "''type.googleapis.com/google.crypto.tink.EcdsaPublicKey''"
  have u: "getTypeUrl \<lparr>getTypeUrl = ?t, getValue = v\<rparr> = ?t" for v :: bytes
    by simp
  have d0: "deserializeBinary exampleCollaborators [] = Inl (TypeError ''truncated'')"
    by (simp add: exampleCollaborators_def)
  have d1: "deserializeBinary exampleCollaborators [1] = Inr (exampleKey\<lparr>getX := None\<rparr>)"
    by (simp add: exampleCollaborators_def)
  have m0: "case deserializeBinary exampleCollaborators
                 (getValue \<lparr>getTypeUrl = ?t, getValue = []\<rparr>) of
              Inl e \<Rightarrow> True
            | Inr key \<Rightarrow> getParams key = None \<or> getX key = None \<or> getY key = None"
    by (simp add: d0)
  have m1: "case deserializeBinary exampleCollaborators
                 (getValue \<lparr>getTypeUrl = ?t, getValue = [1]\<rparr>) of
              Inl e \<Rightarrow> True
            | Inr key \<Rightarrow> getParams key = None \<or> getX key = None \<or> getY key = None"
    by (simp add: d1)
  note a = malformed_key [OF u m0, of Null, THEN conjunct2]
  note b = malformed_key [OF u m1, of Null, THEN conjunct2]
  have c: "\<not> isl (getPrimitive exampleCollaborators (Constructor ''PublicKeyVerify'')
     (KeyData \<lparr>getTypeUrl = ?t, getValue = [2]\<rparr>))"
    by (simp add: getPrimitive_def getKeyProtoFromKeyData_def manager_defs)
  from a d0 b d1 c show ?thesis by (intro conjI)
qed

text \<open>
  C8 (no key generation). \<open>newKey\<close> and \<open>newKeyData\<close> of the key factory throw for every
  argument and never return key material.
\<close>

theorem key_factory_refuses:
  "newKey keyFormat =
     Inl (SecurityException
       (''This operation is not supported for public keys. '' @
        ''Use EcdsaPrivateKeyManager to generate new keys.'')) \<and>
   newKeyData serializedKeyFormat =
     Inl (SecurityException
       (''This operation is not supported for public keys. '' @
        ''Use EcdsaPrivateKeyManager to generate new keys.'')) \<and>
   (\<nexists>key. newKey keyFormat = Inr key) \<and>
   (\<nexists>keyData. newKeyData serializedKeyFormat = Inr keyData)"
  by (simp add: newKey_def newKeyData_def)

theorem key_factory_refuses_witness:
  "isl (newKey Null) \<and> isl (newKey (Uint8Array [])) \<and>
   isl (newKeyData Undefined) \<and> isl (newKeyData (Uint8Array []))"
  using key_factory_refuses [of Null Undefined]
    key_factory_refuses [of "Uint8Array []" "Uint8Array []"]
  by simp

text \<open>
  C10 (parsed keys). \<open>getPrimitive\<close> accepts an ECDSA public-key message directly and uses
  it: for every such message, also one that lacks the parameters or a coordinate, its
  result is the verifier constructed from that very message, with no type URL guard, no
  decoding (the result does not depend on the decoder) and no test of the fields. The
  guard and the decoding apply to serialized key data only: there the result is the error
  of \<open>getKeyProtoFromKeyData\<close>, or the verifier constructed from the key that it returns. On
  any value that is neither, \<open>getPrimitive\<close> throws.
\<close>

theorem getKeyProto_dispatch:
  "getKeyProto c (EcdsaPublicKey key) = Inr key \<and>
   getPrimitive c (Constructor ''PublicKeyVerify'') (EcdsaPublicKey key) =
     primitiveFromKey c key \<and>
   getPrimitive (c\<lparr>deserializeBinary := decoder\<rparr>) primitiveType (EcdsaPublicKey key) =
     getPrimitive c primitiveType (EcdsaPublicKey key) \<and>
   getKeyProto c (KeyData keyData) = getKeyProtoFromKeyData c keyData \<and>
   getPrimitive c (Constructor ''PublicKeyVerify'') (KeyData keyData) =
     (case getKeyProtoFromKeyData c keyData of
        Inl e \<Rightarrow> Inl e
      | Inr decoded \<Rightarrow> primitiveFromKey c decoded) \<and>
   (getKeyProtoFromKeyData c keyData = Inr key \<longrightarrow>
      getPrimitive c primitiveType (KeyData keyData) =
      getPrimitive c primitiveType (EcdsaPublicKey key)) \<and>
   (\<not> isKeyMessage other \<longrightarrow>
      isl (getPrimitive c primitiveType other) \<and>
      getPrimitive c (Constructor ''PublicKeyVerify'') other =
        Inl (SecurityException
          (''Key type is not supported. This key manager supports '' @
           ''type.googleapis.com/google.crypto.tink.EcdsaPublicKey.'')))"
proof -
  have s: "Constructor ''PublicKeyVerify'' = getPrimitiveType"
    by (simp add: getPrimitiveType_def SUPPORTED_PRIMITIVE_def)
  have p1: "getKeyProto c (EcdsaPublicKey key) = Inr key" by simp
  have p2: "getPrimitive c (Constructor ''PublicKeyVerify'') (EcdsaPublicKey key) =
      primitiveFromKey c key"
    unfolding s by (simp add: getPrimitive_supported)
  have p3: "getPrimitive (c\<lparr>deserializeBinary := decoder\<rparr>) primitiveType (EcdsaPublicKey key) =
      getPrimitive c primitiveType (EcdsaPublicKey key)"
    by (simp add: getPrimitive_def split: sum.splits option.splits)
  have p4: "getKeyProto c (KeyData keyData) = getKeyProtoFromKeyData c keyData" by simp
  have p5: "getPrimitive c (Constructor ''PublicKeyVerify'') (KeyData keyData) =
      (case getKeyProtoFromKeyData c keyData of
         Inl e \<Rightarrow> Inl e
       | Inr decoded \<Rightarrow> primitiveFromKey c decoded)"
    unfolding s by (simp add: getPrimitive_supported)
  have p6: "getKeyProtoFromKeyData c keyData = Inr key \<longrightarrow>
      getPrimitive c primitiveType (KeyData keyData) =
      getPrimitive c primitiveType (EcdsaPublicKey key)"
    by (simp add: getPrimitive_def)
  have p7: "\<not> isKeyMessage other \<longrightarrow>
      isl (getPrimitive c primitiveType other) \<and>
      getPrimitive c (Constructor ''PublicKeyVerify'') other =
        Inl (SecurityException
          (''Key type is not supported. This key manager supports '' @
           ''type.googleapis.com/google.crypto.tink.EcdsaPublicKey.''))"
  proof
    assume "\<not> isKeyMessage other"
    then have g: "getKeyProto c other =
        Inl (SecurityException
          (''Key type is not supported. This key manager supports '' @
           ''type.googleapis.com/google.crypto.tink.EcdsaPublicKey.''))"
      by (cases other) (simp_all add: isKeyMessage_def KEY_TYPE_def)
    show "isl (getPrimitive c primitiveType other) \<and>
      getPrimitive c (Constructor ''PublicKeyVerify'') other =
        Inl (SecurityException
          (''Key type is not supported. This key manager supports '' @
           ''type.googleapis.com/google.crypto.tink.EcdsaPublicKey.''))"
      unfolding s
      using getPrimitive_guard [OF g] getPrimitive_guard_supported [OF g] by simp
  qed
  from p1 p2 p3 p4 p5 p6 p7 show ?thesis by (intro conjI)
qed

theorem getKeyProto_dispatch_witness:
  "getKeyProto exampleCollaborators (EcdsaPublicKey (exampleKey\<lparr>getX := None\<rparr>)) =
     Inr (exampleKey\<lparr>getX := None\<rparr>) \<and>
   isl (getKeyProto exampleCollaborators
     (KeyData \<lparr>getTypeUrl = ''type.googleapis.com/google.crypto.tink.EcdsaPublicKey'',
               getValue = [1]\<rparr>)) \<and>
   getKeyProtoFromKeyData exampleCollaborators
     \<lparr>getTypeUrl = ''type.googleapis.com/google.crypto.tink.EcdsaPublicKey'',
      getValue = [2]\<rparr> = Inr exampleKey \<and>
   getPrimitive exampleCollaborators (Constructor ''PublicKeyVerify'')
     (KeyData \<lparr>getTypeUrl = ''type.googleapis.com/google.crypto.tink.EcdsaPublicKey'',
               getValue = [2]\<rparr>) =
   getPrimitive exampleCollaborators (Constructor ''PublicKeyVerify'') (EcdsaPublicKey exampleKey) \<and>
   getPrimitive exampleCollaborators (Constructor ''PublicKeyVerify'') (EcdsaPublicKey exampleKey) =
     Inr (acceptOnly [4]) \<and>
   \<not> isKeyMessage (PbMessage ''AesGcmKey'') \<and>
   getPrimitive exampleCollaborators (Constructor ''PublicKeyVerify'') (PbMessage ''AesGcmKey'') =
     Inl (SecurityException
       (''Key type is not supported. This key manager supports '' @
        ''type.googleapis.com/google.crypto.tink.EcdsaPublicKey.'')) \<and>
   getY (exampleKey\<lparr>getY := None\<rparr>) = None \<and>
   getPrimitive exampleCollaborators (Constructor ''PublicKeyVerify'')
     (EcdsaPublicKey (exampleKey\<lparr>getY := None\<rparr>)) = Inr (acceptOnly [4]) \<and>
   deserializeBinary exampleCollaborators [3] = Inr (exampleKey\<lparr>getY := None\<rparr>) \<and>
   getPrimitive exampleCollaborators (Constructor ''PublicKeyVerify'')
     (KeyData \<lparr>getTypeUrl = ''type.googleapis.com/google.crypto.tink.EcdsaPublicKey'',
               getValue = [3]\<rparr>) =
     Inl (SecurityException
       (''Input cannot be parsed as '' @
        ''type.googleapis.com/google.crypto.tink.EcdsaPublicKey key-proto.'')) \<and>
   getPrimitive refusingCollaborators (Constructor ''PublicKeyVerify'') (EcdsaPublicKey exampleKey) =
     Inl (SecurityException ''unsupported curve'') \<and>
   getPrimitive exampleCollaborators (Constructor ''PublicKeyVerify'')
     (EcdsaPublicKey (exampleKey\<lparr>getParams := None\<rparr>)) =
     Inl (TypeError ''Cannot read properties of undefined'')"
proof -
  let ?t = "''type.googleapis.com/google.crypto.tink.EcdsaPublicKey''"
  let ?pkv = "Constructor ''PublicKeyVerify''"
  note t = getKeyProto_dispatch [where c = exampleCollaborators and primitiveType = ?pkv]
  note construct = primitiveFromKey_def andThen_def paramsOf_def
  have a: "getKeyProto exampleCollaborators (EcdsaPublicKey (exampleKey\<lparr>getX := None\<rparr>)) =
     Inr (exampleKey\<lparr>getX := None\<rparr>)"
    using t [where key = "exampleKey\<lparr>getX := None\<rparr>"] by (rule conjunct1)
  have b: "isl (getKeyProto exampleCollaborators (KeyData \<lparr>getTypeUrl = ?t, getValue = [1]\<rparr>))"
    by (simp add: getKeyProtoFromKeyData_def manager_defs)
  have k: "getKeyProtoFromKeyData exampleCollaborators \<lparr>getTypeUrl = ?t, getValue = [2]\<rparr> =
     Inr exampleKey"
    by (simp add: getKeyProtoFromKeyData_def manager_defs)
  have c: "getPrimitive exampleCollaborators ?pkv (KeyData \<lparr>getTypeUrl = ?t, getValue = [2]\<rparr>) =
     getPrimitive exampleCollaborators ?pkv (EcdsaPublicKey exampleKey)"
    using t [where key = exampleKey and keyData = "\<lparr>getTypeUrl = ?t, getValue = [2]\<rparr>"] k
    by blast
  have "primitiveFromKey exampleCollaborators exampleKey = Inr (acceptOnly [4])"
    by (simp add: construct manager_defs)
  with t [where key = exampleKey]
  have d: "getPrimitive exampleCollaborators ?pkv (EcdsaPublicKey exampleKey) =
      Inr (acceptOnly [4])"
    by simp
  have n: "\<not> isKeyMessage (PbMessage ''AesGcmKey'')"
    by (simp add: isKeyMessage_def)
  have e: "getPrimitive exampleCollaborators ?pkv (PbMessage ''AesGcmKey'') =
     Inl (SecurityException
       (''Key type is not supported. This key manager supports '' @
        ''type.googleapis.com/google.crypto.tink.EcdsaPublicKey.''))"
    using t [where other = "PbMessage ''AesGcmKey''"] n by blast
  have y: "getY (exampleKey\<lparr>getY := None\<rparr>) = None" by simp
  have "primitiveFromKey exampleCollaborators (exampleKey\<lparr>getY := None\<rparr>) =
      Inr (acceptOnly [4])"
    by (simp add: construct manager_defs)
  with t [where key = "exampleKey\<lparr>getY := None\<rparr>"]
  have f: "getPrimitive exampleCollaborators ?pkv (EcdsaPublicKey (exampleKey\<lparr>getY := None\<rparr>)) =
      Inr (acceptOnly [4])"
    by simp
  have g: "deserializeBinary exampleCollaborators [3] = Inr (exampleKey\<lparr>getY := None\<rparr>)"
    by (simp add: exampleCollaborators_def)
  have "getKeyProtoFromKeyData exampleCollaborators \<lparr>getTypeUrl = ?t, getValue = [3]\<rparr> =
      Inl (SecurityException
        (''Input cannot be parsed as '' @
         ''type.googleapis.com/google.crypto.tink.EcdsaPublicKey key-proto.''))"
    by (simp add: getKeyProtoFromKeyData_def manager_defs)
  with t [where keyData = "\<lparr>getTypeUrl = ?t, getValue = [3]\<rparr>"]
  have h: "getPrimitive exampleCollaborators ?pkv (KeyData \<lparr>getTypeUrl = ?t, getValue = [3]\<rparr>) =
      Inl (SecurityException
        (''Input cannot be parsed as '' @
         ''type.googleapis.com/google.crypto.tink.EcdsaPublicKey key-proto.''))"
    by simp
  have "primitiveFromKey refusingCollaborators exampleKey =
      Inl (SecurityException ''unsupported curve'')"
    by (simp add: construct refusingCollaborators_def manager_defs)
  with getKeyProto_dispatch [where c = refusingCollaborators and key = exampleKey]
  have r: "getPrimitive refusingCollaborators ?pkv (EcdsaPublicKey exampleKey) =
      Inl (SecurityException ''unsupported curve'')"
    by simp
  have "primitiveFromKey exampleCollaborators (exampleKey\<lparr>getParams := None\<rparr>) =
      Inl (TypeError ''Cannot read properties of undefined'')"
    by (simp add: construct manager_defs)
  with t [where key = "exampleKey\<lparr>getParams := None\<rparr>"]
  have u: "getPrimitive exampleCollaborators ?pkv (EcdsaPublicKey (exampleKey\<lparr>getParams := None\<rparr>)) =
      Inl (TypeError ''Cannot read properties of undefined'')"
    by simp
  from a b k c d n e y f g h r u show ?thesis by (intro conjI)
qed

end
